theory Spec2Isabelle
  imports Complex_Main
begin

section \<open>Numeric model\<close>

text \<open>
  The controller of \<^verbatim>\<open>controller.py\<close> computes on Python floats and numpy arrays.
  Finite numbers are idealised as \<^typ>\<open>real\<close> (no rounding, no overflow) and decimal
  literals are read as the exact rationals they denote. A numpy division does not raise
  on a zero divisor: it yields an infinity or NaN, which later arithmetic propagates
  and \<^verbatim>\<open>np.clip\<close> partly absorbs. These outcomes are kept as values of their own.
\<close>

datatype npfloat = Fin real | PosInf | NegInf | NaN

text \<open>
  \<^verbatim>\<open>x / y\<close> on numpy operands. The reals have a single zero; a zero divisor is taken
  as \<^verbatim>\<open>+0.0\<close>, which is what \<^verbatim>\<open>t - t\<close> evaluates to.
\<close>

definition np_divide :: "real \<Rightarrow> real \<Rightarrow> npfloat" where
  "np_divide x y =
     (if y \<noteq> 0 then Fin (x / y)
      else if 0 < x then PosInf
      else if x < 0 then NegInf
      else NaN)"

fun np_add :: "npfloat \<Rightarrow> npfloat \<Rightarrow> npfloat" where
  "np_add (Fin a) (Fin b) = Fin (a + b)"
| "np_add NaN _ = NaN"
| "np_add _ NaN = NaN"
| "np_add PosInf NegInf = NaN"
| "np_add NegInf PosInf = NaN"
| "np_add PosInf _ = PosInf"
| "np_add _ PosInf = PosInf"
| "np_add NegInf _ = NegInf"
| "np_add _ NegInf = NegInf"

text \<open>Product of a possibly non-finite array entry with a finite scalar.\<close>

fun np_scale :: "npfloat \<Rightarrow> real \<Rightarrow> npfloat" where
  "np_scale (Fin a) b = Fin (a * b)"
| "np_scale NaN b = NaN"
| "np_scale PosInf b = (if 0 < b then PosInf else if b < 0 then NegInf else NaN)"
| "np_scale NegInf b = (if 0 < b then NegInf else if b < 0 then PosInf else NaN)"


type_synonym vec2 = "real \<times> real"
type_synonym vec3 = "real \<times> real \<times> real"
type_synonym npvec2 = "npfloat \<times> npfloat"
type_synonym npvec3 = "npfloat \<times> npfloat \<times> npfloat"

definition fin3 :: "vec3 \<Rightarrow> npvec3" where
  "fin3 v = (case v of (a, b, c) \<Rightarrow> (Fin a, Fin b, Fin c))"

text \<open>\<^verbatim>\<open>np.linalg.norm\<close> of a 3-element array.\<close>

definition norm3 :: "vec3 \<Rightarrow> real" where
  "norm3 v = (case v of (a, b, c) \<Rightarrow> sqrt (a * a + b * b + c * c))"

section \<open>Module constants and configuration\<close>





text \<open>The gains and angle limits stored by \<^verbatim>\<open>NonlinearController.__init__\<close>.\<close>

record config =
  z_k_p :: real
  z_k_d :: real
  x_k_p :: real
  x_k_d :: real
  y_k_p :: real
  y_k_d :: real
  k_p_roll :: real
  k_p_pitch :: real
  k_p_yaw :: real
  k_p_p :: real
  k_p_q :: real
  k_p_r :: real
  max_roll_rad :: real
  max_pitch_rad :: real

text \<open>The keyword defaults of the constructor.\<close>

definition default_config :: config where
  "default_config =
     \<lparr> z_k_p = 20, z_k_d = 6, x_k_p = 1 / 4, x_k_d = 1 / 4, y_k_p = 1 / 4, y_k_d = 1 / 4,
       k_p_roll = 4, k_p_pitch = 4, k_p_yaw = 5, k_p_p = 27, k_p_q = 27, k_p_r = 10,
       max_roll_rad = 1, max_pitch_rad = 1 \<rparr>"

section \<open>Rotation matrix\<close>

text \<open>
  \<^verbatim>\<open>euler2RM\<close> is imported from \<^verbatim>\<open>frame_utils\<close>, which is not part of the sources.
  The controller functions below take it as a parameter: a function from roll, pitch
  and yaw to a matrix read by row and column index.
\<close>

type_synonym rotmat = "nat \<Rightarrow> nat \<Rightarrow> real"
type_synonym rotfun = "real \<Rightarrow> real \<Rightarrow> real \<Rightarrow> rotmat"

text \<open>
  Modelled from the spec: \<^verbatim>\<open>euler2RM\<close> of \<^verbatim>\<open>frame_utils\<close> is missing. The spec gives
  its contract: the 3x3 matrix taking body-frame vectors to the local frame, composed
  of a roll about x, then a pitch about y, then a yaw about z, that is
  \<open>Rz(yaw) * Ry(pitch) * Rx(roll)\<close>.
\<close>

definition euler2RM :: rotfun where
  "euler2RM roll pitch yaw = (\<lambda>i j.
     (let cr = cos roll; sr = sin roll; cp = cos pitch; sp = sin pitch;
          cy = cos yaw; sy = sin yaw
      in if i = 0 \<and> j = 0 then cp * cy
         else if i = 0 \<and> j = 1 then - cr * sy + sr * sp * cy
         else if i = 0 \<and> j = 2 then sr * sy + cr * sp * cy
         else if i = 1 \<and> j = 0 then cp * sy
         else if i = 1 \<and> j = 1 then cr * cy + sr * sp * sy
         else if i = 1 \<and> j = 2 then - sr * cy + cr * sp * sy
         else if i = 2 \<and> j = 0 then - sp
         else if i = 2 \<and> j = 1 then sr * cp
         else cr * cp))"

section \<open>Python lists\<close>

datatype error = IndexError | ValueError

text \<open>\<^verbatim>\<open>xs[i]\<close> on a Python list: an index below zero counts back from the end.\<close>

definition py_index :: "'a list \<Rightarrow> int \<Rightarrow> error + 'a" where
  "py_index xs i =
     (if 0 \<le> i \<and> i < int (length xs) then Inr (xs ! nat i)
      else if i < 0 \<and> - int (length xs) \<le> i then Inr (xs ! nat (int (length xs) + i))
      else Inl IndexError)"

text \<open>
  \<^verbatim>\<open>np.argmin\<close>: the first index holding the least entry; \<^verbatim>\<open>ValueError\<close> on an
  empty array.
\<close>

fun argmin_pos :: "real list \<Rightarrow> nat" where
  "argmin_pos [] = 0"
| "argmin_pos [x] = 0"
| "argmin_pos (x # y # ys) =
     (let k = argmin_pos (y # ys) in if x \<le> (y # ys) ! k then 0 else Suc k)"

definition argmin :: "real list \<Rightarrow> error + nat" where
  "argmin xs = (if xs = [] then Inl ValueError else Inr (argmin_pos xs))"

section \<open>The controller\<close>

subsection \<open>Trajectory sampling\<close>

text \<open>Interpolation of one coordinate between \<open>(t0, a0)\<close> and \<open>(t1, a1)\<close>.\<close>

definition interp :: "real \<Rightarrow> real \<Rightarrow> real \<Rightarrow> real \<Rightarrow> real \<Rightarrow> npfloat" where
  "interp a0 a1 t0 t1 t = np_add (np_divide ((a1 - a0) * (t - t0)) (t1 - t0)) (Fin a0)"

definition position_cmd_of :: "vec3 \<Rightarrow> vec3 \<Rightarrow> real \<Rightarrow> real \<Rightarrow> real \<Rightarrow> npvec3" where
  "position_cmd_of position0 position1 time0 time1 current_time =
     (case (position0, position1) of ((a0, b0, c0), (a1, b1, c1)) \<Rightarrow>
        (interp a0 a1 time0 time1 current_time,
         interp b0 b1 time0 time1 current_time,
         interp c0 c1 time0 time1 current_time))"

definition velocity_cmd_of :: "vec3 \<Rightarrow> vec3 \<Rightarrow> real \<Rightarrow> real \<Rightarrow> npvec3" where
  "velocity_cmd_of position0 position1 time0 time1 =
     (case (position0, position1) of ((a0, b0, c0), (a1, b1, c1)) \<Rightarrow>
        (np_divide (a1 - a0) (time1 - time0),
         np_divide (b1 - b0) (time1 - time0),
         np_divide (c1 - c0) (time1 - time0)))"

text \<open>
  \<^verbatim>\<open>trajectory_control\<close>; it does not read the controller's configuration. Every list
  read is a Python index, so a short list shows as \<^verbatim>\<open>IndexError\<close>.
\<close>

definition trajectory_control ::
  "vec3 list \<Rightarrow> real list \<Rightarrow> real list \<Rightarrow> real \<Rightarrow> error + (npvec3 \<times> npvec3 \<times> real)" where
  "trajectory_control position_trajectory yaw_trajectory time_trajectory current_time =
     (case argmin (map (\<lambda>t. \<bar>t - current_time\<bar>) time_trajectory) of
        Inl e \<Rightarrow> Inl e
      | Inr ind_min \<Rightarrow>
     (case py_index time_trajectory (int ind_min) of
        Inl e \<Rightarrow> Inl e
      | Inr time_ref \<Rightarrow>
        if current_time < time_ref then
          (case py_index position_trajectory (int ind_min - 1) of Inl e \<Rightarrow> Inl e | Inr position0 \<Rightarrow>
          (case py_index position_trajectory (int ind_min) of Inl e \<Rightarrow> Inl e | Inr position1 \<Rightarrow>
          (case py_index time_trajectory (int ind_min - 1) of Inl e \<Rightarrow> Inl e | Inr time0 \<Rightarrow>
          (case py_index time_trajectory (int ind_min) of Inl e \<Rightarrow> Inl e | Inr time1 \<Rightarrow>
          (case py_index yaw_trajectory (int ind_min - 1) of Inl e \<Rightarrow> Inl e | Inr yaw_cmd \<Rightarrow>
             Inr (position_cmd_of position0 position1 time0 time1 current_time,
                  velocity_cmd_of position0 position1 time0 time1, yaw_cmd))))))
        else
          (case py_index yaw_trajectory (int ind_min) of Inl e \<Rightarrow> Inl e | Inr yaw_cmd \<Rightarrow>
             if int ind_min \<ge> int (length position_trajectory) - 1 then
               (case py_index position_trajectory (int ind_min) of Inl e \<Rightarrow> Inl e | Inr position0 \<Rightarrow>
                  Inr (position_cmd_of position0 position0 0 1 current_time,
                       velocity_cmd_of position0 position0 0 1, yaw_cmd))
             else
               (case py_index position_trajectory (int ind_min) of Inl e \<Rightarrow> Inl e | Inr position0 \<Rightarrow>
               (case py_index position_trajectory (int ind_min + 1) of Inl e \<Rightarrow> Inl e | Inr position1 \<Rightarrow>
               (case py_index time_trajectory (int ind_min) of Inl e \<Rightarrow> Inl e | Inr time0 \<Rightarrow>
               (case py_index time_trajectory (int ind_min + 1) of Inl e \<Rightarrow> Inl e | Inr time1 \<Rightarrow>
                  Inr (position_cmd_of position0 position1 time0 time1 current_time,
                       velocity_cmd_of position0 position1 time0 time1, yaw_cmd))))))))"

subsection \<open>Lateral position\<close>

definition lateral_position_control ::
  "config \<Rightarrow> vec2 \<Rightarrow> vec2 \<Rightarrow> vec2 \<Rightarrow> vec2 \<Rightarrow> vec2 \<Rightarrow> vec2" where
  "lateral_position_control self local_position_cmd local_velocity_cmd local_position
       local_velocity acceleration_ff =
     (case (local_position_cmd, local_velocity_cmd, local_position, local_velocity,
            acceleration_ff) of
        ((x_cmd, y_cmd), (x_dot_cmd, y_dot_cmd), (x, y), (x_dot, y_dot),
         (x_dot_dot_acc, y_dot_dot_acc)) \<Rightarrow>
          (let x_dot_err = x_dot_cmd - x_dot;
               x_err = x_cmd - x;
               x_dot_dot = x_k_p self * x_err + x_k_d self * x_dot_err + x_dot_dot_acc;
               y_dot_err = y_dot_cmd - y_dot;
               y_err = y_cmd - y;
               y_dot_dot = x_k_p self * y_err + y_k_d self * y_dot_err + y_dot_dot_acc
           in (- x_dot_dot, - y_dot_dot)))"

subsection \<open>Altitude\<close>


subsection \<open>Roll and pitch\<close>

definition roll_pitch_controller :: "config \<Rightarrow> rotfun \<Rightarrow> vec2 \<Rightarrow> vec3 \<Rightarrow> real \<Rightarrow> npvec2" where
  "roll_pitch_controller self rm acceleration_cmd attitude thrust_cmd =
     (case (acceleration_cmd, attitude) of ((b_x_c, b_y_c), (roll, pitch, yaw)) \<Rightarrow>
        (let rot_mat = rm roll pitch yaw;
             b_x_err = b_x_c - rot_mat 0 2;
             b_x_p_term = k_p_roll self * b_x_err;
             b_y_err = b_y_c - rot_mat 1 2;
             b_y_p_term = k_p_pitch self * b_y_err;
             m00 = np_divide (rot_mat 1 0) (rot_mat 2 2);
             m01 = np_divide (- rot_mat 0 0) (rot_mat 2 2);
             m10 = np_divide (rot_mat 1 1) (rot_mat 2 2);
             m11 = np_divide (- rot_mat 0 1) (rot_mat 2 2);
             p_c = np_add (np_scale m00 b_x_p_term) (np_scale m01 b_y_p_term);
             q_c = np_add (np_scale m10 b_x_p_term) (np_scale m11 b_y_p_term);
             p_c = (if roll > max_roll_rad self \<or> roll < - max_roll_rad self then Fin 0 else p_c);
             q_c = (if pitch > max_pitch_rad self \<or> pitch < - max_pitch_rad self then Fin 0 else q_c)
         in (p_c, q_c)))"

subsection \<open>Body rates\<close>


subsection \<open>Yaw\<close>

text \<open>The error of \<^verbatim>\<open>yaw_control\<close> after its single wrapping step.\<close>

definition wrapped_yaw_err :: "real \<Rightarrow> real \<Rightarrow> real" where
  "wrapped_yaw_err yaw_cmd yaw =
     (let yaw_err = yaw_cmd - yaw
      in if yaw_err > pi then yaw_err - 2 * pi
         else if yaw_err < - pi then yaw_err + 2 * pi
         else yaw_err)"

definition yaw_control :: "config \<Rightarrow> real \<Rightarrow> real \<Rightarrow> real" where
  "yaw_control self yaw_cmd yaw =
     (let yaw_err = wrapped_yaw_err yaw_cmd yaw;
          r_c = k_p_yaw self * yaw_err
      in r_c)"

section \<open>Reference formulas of the specification\<close>

text \<open>
  The interpolation formulas as the specification writes them, on reals:
  \<open>position0 + (position1 - position0) * (t - t0) / (t1 - t0)\<close> and the forward
  difference \<open>(position1 - position0) / (t1 - t0)\<close>.
\<close>

definition interpolate_spec :: "vec3 \<Rightarrow> vec3 \<Rightarrow> real \<Rightarrow> real \<Rightarrow> real \<Rightarrow> vec3" where
  "interpolate_spec position0 position1 t0 t1 t =
     (case (position0, position1) of ((a0, b0, c0), (a1, b1, c1)) \<Rightarrow>
        (a0 + (a1 - a0) * (t - t0) / (t1 - t0),
         b0 + (b1 - b0) * (t - t0) / (t1 - t0),
         c0 + (c1 - c0) * (t - t0) / (t1 - t0)))"

definition forward_difference_spec :: "vec3 \<Rightarrow> vec3 \<Rightarrow> real \<Rightarrow> real \<Rightarrow> vec3" where
  "forward_difference_spec position0 position1 t0 t1 =
     (case (position0, position1) of ((a0, b0, c0), (a1, b1, c1)) \<Rightarrow>
        ((a1 - a0) / (t1 - t0), (b1 - b0) / (t1 - t0), (c1 - c0) / (t1 - t0)))"

text \<open>
  What the specification expects of a sample taken at the timestamp of waypoint \<open>i\<close>:
  that waypoint's position and yaw, and the forward difference to waypoint \<open>i + 1\<close>,
  each read as a Python list index.
\<close>

definition waypoint_sample_spec ::
  "vec3 list \<Rightarrow> real list \<Rightarrow> real list \<Rightarrow> nat \<Rightarrow> error + (npvec3 \<times> npvec3 \<times> real)" where
  "waypoint_sample_spec position_trajectory yaw_trajectory time_trajectory i =
     (case (py_index position_trajectory (int i), py_index position_trajectory (int i + 1),
            py_index time_trajectory (int i), py_index time_trajectory (int i + 1),
            py_index yaw_trajectory (int i)) of
        (Inr p0, Inr p1, Inr t0, Inr t1, Inr y) \<Rightarrow>
          Inr (fin3 p0, fin3 (forward_difference_spec p0 p1 t0 t1), y)
      | _ \<Rightarrow> Inl IndexError)"




section \<open>Altitude control: thrust range and formula\<close>







section \<open>Body-rate control: the torque limit\<close>

lemma norm3_nonneg: "0 \<le> norm3 v"
  by (cases v) (simp add: norm3_def)







section \<open>Yaw control: the wrapped error\<close>

lemma pi_ge_three: "3 \<le> pi"
proof -
  have "sin (pi / 6) \<le> pi / 6"
    by (rule sin_x_le_x) simp
  then show ?thesis
    by (simp add: sin_30)
qed

text \<open>Bounds on \<open>pi\<close> from the Taylor polynomial of the sine at \<open>pi / 6\<close>.\<close>

lemma sin_taylor_8:
  "\<bar>sin x - (x - x ^ 3 / 6 + x ^ 5 / 120 - x ^ 7 / 5040)\<bar> \<le> \<bar>x\<bar> ^ 8 / 40320" for x :: real
proof -
  have s: "(\<Sum>m<8. sin_coeff m * x ^ m) = x - x ^ 3 / 6 + x ^ 5 / 120 - x ^ 7 / 5040"
    by (simp add: eval_nat_numeral sin_coeff_Suc cos_coeff_Suc)
  have "fact 8 = (40320 :: real)"
    by (simp add: fact_numeral)
  then have f: "inverse (fact 8) * \<bar>x\<bar> ^ 8 = \<bar>x\<bar> ^ 8 / 40320"
    by (simp only: inverse_eq_divide times_divide_eq_left mult_1)
  show ?thesis
    using Maclaurin_sin_bound [of x 8] unfolding s f .
qed

lemma pi_lower: "3141 / 1000 < pi"
proof -
  let ?a = "5235 / 10000 :: real"
  have "?a - ?a ^ 3 / 6 + ?a ^ 5 / 120 - ?a ^ 7 / 5040 + \<bar>?a\<bar> ^ 8 / 40320 < 1 / 2"
    by (simp add: power_divide)
  then have "sin ?a < 1 / 2"
    using sin_taylor_8 [of ?a] by linarith
  then have "sin ?a < sin (pi / 6)"
    by (simp add: sin_30)
  moreover have "?a \<le> pi / 2" "- (pi / 2) \<le> ?a"
    using pi_ge_two by simp_all
  ultimately have "?a < pi / 6"
    using sin_mono_less_eq [of ?a "pi / 6"] by simp
  then show ?thesis
    by simp
qed

lemma pi_upper: "pi < 3142 / 1000"
proof -
  let ?b = "52366 / 100000 :: real"
  have "1 / 2 < ?b - ?b ^ 3 / 6 + ?b ^ 5 / 120 - ?b ^ 7 / 5040 - \<bar>?b\<bar> ^ 8 / 40320"
    by (simp add: power_divide)
  then have "1 / 2 < sin ?b"
    using sin_taylor_8 [of ?b] by linarith
  then have "sin (pi / 6) < sin ?b"
    by (simp add: sin_30)
  moreover have "?b \<le> pi / 2" "- (pi / 2) \<le> ?b"
    using pi_ge_two by simp_all
  ultimately have "pi / 6 < ?b"
    using sin_mono_less_eq [of "pi / 6" ?b] by simp
  then show ?thesis
    by simp
qed

lemma two_pi_minus_six: "\<bar>(2 * pi - 6) - 283 / 1000\<bar> < 1 / 1000"
  using pi_lower pi_upper by linarith

lemma wrapped_yaw_err_bounds:
  assumes "\<bar>yaw_cmd - yaw\<bar> \<le> 2 * pi"
  shows "- pi \<le> wrapped_yaw_err yaw_cmd yaw" and "wrapped_yaw_err yaw_cmd yaw \<le> pi"
    and "wrapped_yaw_err yaw_cmd yaw = - pi \<longleftrightarrow> yaw_cmd - yaw = - pi"
  using assms pi_gt_zero by (auto simp: wrapped_yaw_err_def Let_def abs_le_iff)

text \<open>
  C6 (as amended). When the raw error \<open>yaw_cmd - yaw\<close> is at most \<open>2 * pi\<close> in absolute
  value, the wrapped error (raw error minus \<open>2 * pi\<close> above \<open>pi\<close>, plus \<open>2 * pi\<close> below
  \<open>- pi\<close>, unchanged otherwise) lies in the closed interval \<open>[- pi, pi]\<close>, and it is
  \<open>- pi\<close> only for a raw error of \<open>- pi\<close>. The returned rate is \<open>k_p_yaw\<close> times the
  wrapped error: zero when \<open>yaw_cmd = yaw\<close>, and \<open>k_p_yaw * (2 * pi - 6)\<close> for
  \<open>yaw = 3\<close>, \<open>yaw_cmd = - 3\<close>, where \<open>2 * pi - 6\<close> is within a thousandth of \<open>0.283\<close>.
\<close>

theorem yaw_control_wrapped:
  "(\<bar>yaw_cmd - yaw\<bar> \<le> 2 * pi \<longrightarrow>
      wrapped_yaw_err yaw_cmd yaw \<in> {- pi .. pi}
      \<and> (wrapped_yaw_err yaw_cmd yaw = - pi \<longleftrightarrow> yaw_cmd - yaw = - pi))
   \<and> wrapped_yaw_err yaw_cmd yaw
       = (if yaw_cmd - yaw > pi then yaw_cmd - yaw - 2 * pi
          else if yaw_cmd - yaw < - pi then yaw_cmd - yaw + 2 * pi
          else yaw_cmd - yaw)
   \<and> yaw_control self yaw_cmd yaw = k_p_yaw self * wrapped_yaw_err yaw_cmd yaw
   \<and> yaw_control self yaw yaw = 0
   \<and> yaw_control self (- 3) 3 = k_p_yaw self * (2 * pi - 6)
   \<and> \<bar>(2 * pi - 6) - 283 / 1000\<bar> < 1 / 1000"
proof -
  have "\<not> pi < - 6" and "pi < 6"
    using pi_less_4 pi_gt_zero by linarith+
  then have "yaw_control self (- 3) 3 = k_p_yaw self * (2 * pi - 6)"
    by (simp add: yaw_control_def wrapped_yaw_err_def)
  moreover have "yaw_control self yaw yaw = 0"
    by (simp add: yaw_control_def wrapped_yaw_err_def)
  moreover have "yaw_control self yaw_cmd yaw = k_p_yaw self * wrapped_yaw_err yaw_cmd yaw"
    by (simp add: yaw_control_def)
  moreover have "wrapped_yaw_err yaw_cmd yaw
       = (if yaw_cmd - yaw > pi then yaw_cmd - yaw - 2 * pi
          else if yaw_cmd - yaw < - pi then yaw_cmd - yaw + 2 * pi
          else yaw_cmd - yaw)"
    by (simp add: wrapped_yaw_err_def)
  moreover have "\<bar>yaw_cmd - yaw\<bar> \<le> 2 * pi \<longrightarrow>
      wrapped_yaw_err yaw_cmd yaw \<in> {- pi .. pi}
      \<and> (wrapped_yaw_err yaw_cmd yaw = - pi \<longleftrightarrow> yaw_cmd - yaw = - pi)"
    using wrapped_yaw_err_bounds [of yaw_cmd yaw] by simp
  ultimately show ?thesis
    using two_pi_minus_six by blast
qed

theorem yaw_control_wrapped_witness:
  "\<bar>- 3 - 3\<bar> \<le> 2 * pi \<and> wrapped_yaw_err (- 3) 3 \<in> {- pi .. pi}
   \<and> yaw_control default_config (- 3) 3 = 5 * (2 * pi - 6)"
proof -
  have "(3::real) \<le> pi" by (rule pi_ge_three)
  then show ?thesis
    using yaw_control_wrapped [where yaw_cmd = "- 3" and yaw = 3 and self = default_config]
    by (simp add: default_config_def)
qed

text \<open>
  C6 as stated fails at the boundary: a raw error of exactly \<open>- pi\<close> is not below
  \<open>- pi\<close>, stays unchanged, and is outside the half-open interval \<open>(- pi, pi]\<close>.
\<close>

theorem yaw_wrap_boundary_counterexample:
  "\<bar>- pi - 0\<bar> \<le> 2 * pi \<and> wrapped_yaw_err (- pi) 0 \<notin> {- pi <.. pi}
   \<and> yaw_control default_config (- pi) 0 = 5 * (- pi)"
  by (simp add: yaw_control_def wrapped_yaw_err_def default_config_def)

section \<open>Lateral position control\<close>

text \<open>
  C7. The claim gives the east output as
  \<open>- (y_k_p * (y_cmd - y) + y_k_d * (y_dot_cmd - y_dot) + ff_east)\<close>. The code multiplies
  the east position error by \<open>x_k_p\<close>: with \<open>y_k_p = 1\<close>, \<open>x_k_p = 0.25\<close> and an east
  error of 1 it returns \<open>- 0.25\<close> where the claim gives \<open>- 1\<close>.
\<close>

theorem lateral_east_gain_evaluation:
  "lateral_position_control (default_config \<lparr> y_k_p := 1 \<rparr>) (0, 1) (0, 0) (0, 0) (0, 0) (0, 0)
     = (0, - (1 / 4))
   \<and> - (y_k_p (default_config \<lparr> y_k_p := 1 \<rparr>) * (1 - 0)
        + y_k_d (default_config \<lparr> y_k_p := 1 \<rparr>) * (0 - 0) + 0) = (- 1 :: real)"
  by (simp add: lateral_position_control_def default_config_def)

section \<open>Roll and pitch control\<close>

text \<open>
  C8. When the current roll exceeds \<open>max_roll_rad\<close> in absolute value the returned
  roll rate is exactly 0, and when the current pitch exceeds \<open>max_pitch_rad\<close> in
  absolute value the returned pitch rate is exactly 0, whatever the commanded
  acceleration, attitude and thrust.
\<close>

theorem roll_pitch_rate_zero_beyond_limit:
  "(\<bar>roll\<bar> > max_roll_rad self \<longrightarrow>
      fst (roll_pitch_controller self rm acceleration_cmd (roll, pitch, yaw) thrust_cmd) = Fin 0)
   \<and> (\<bar>pitch\<bar> > max_pitch_rad self \<longrightarrow>
      snd (roll_pitch_controller self rm acceleration_cmd (roll, pitch, yaw) thrust_cmd) = Fin 0)"
  by (cases acceleration_cmd) (auto simp: roll_pitch_controller_def Let_def)

theorem roll_pitch_rate_zero_beyond_limit_witness:
  "\<bar>3 / 2\<bar> > max_roll_rad default_config \<and> \<bar>- (6 / 5)\<bar> > max_pitch_rad default_config
   \<and> roll_pitch_controller default_config euler2RM (1, 2) (3 / 2, - (6 / 5), 0) 5
       = (Fin 0, Fin 0)"
  using roll_pitch_rate_zero_beyond_limit [where roll = "3 / 2" and pitch = "- (6 / 5)"
          and yaw = 0 and self = default_config and rm = euler2RM
          and acceleration_cmd = "(1, 2)" and thrust_cmd = 5]
  by (simp add: default_config_def prod_eq_iff)

text \<open>
  C9. The result of \<^verbatim>\<open>roll_pitch_controller\<close> does not depend on \<open>thrust_cmd\<close>: two
  calls that differ only in that argument return the same rates.
\<close>

theorem roll_pitch_ignores_thrust:
  "roll_pitch_controller self rm acceleration_cmd attitude thrust_cmd
     = roll_pitch_controller self rm acceleration_cmd attitude thrust_cmd'"
  by (simp add: roll_pitch_controller_def)

section \<open>Trajectory sampling: nearest waypoint and interpolation\<close>

lemma argmin_pos_less: "xs \<noteq> [] \<Longrightarrow> argmin_pos xs < length xs"
  by (induction xs rule: argmin_pos.induct) (auto simp: Let_def)

lemma argmin_pos_le: "j < length xs \<Longrightarrow> xs ! argmin_pos xs \<le> xs ! j"
proof (induction xs arbitrary: j rule: argmin_pos.induct)
  case 1
  then show ?case by simp
next
  case (2 x)
  then show ?case by simp
next
  case (3 x y ys)
  show ?case
  proof (cases j)
    case 0
    then show ?thesis
      by (auto simp: Let_def)
  next
    case (Suc j')
    then have "(y # ys) ! argmin_pos (y # ys) \<le> (y # ys) ! j'"
      using 3 by simp
    then show ?thesis
      using Suc by (auto simp: Let_def)
  qed
qed

lemma argmin_pos_unique:
  assumes "i < length xs" and "\<And>j. j < length xs \<Longrightarrow> j \<noteq> i \<Longrightarrow> xs ! i < xs ! j"
  shows "argmin_pos xs = i"
proof (rule ccontr)
  assume neq: "argmin_pos xs \<noteq> i"
  have "xs \<noteq> []"
    using assms(1) by auto
  then have "argmin_pos xs < length xs"
    by (rule argmin_pos_less)
  then have "xs ! i < xs ! argmin_pos xs"
    using neq assms(2) by blast
  moreover have "xs ! argmin_pos xs \<le> xs ! i"
    using assms(1) by (rule argmin_pos_le)
  ultimately show False
    by simp
qed

lemma argmin_unique:
  assumes "i < length xs" and "\<And>j. j < length xs \<Longrightarrow> j \<noteq> i \<Longrightarrow> xs ! i < xs ! j"
  shows "argmin xs = Inr i"
  using argmin_pos_unique [OF assms] assms(1) by (auto simp: argmin_def)

lemma strictly_increasing_nth:
  assumes "sorted_wrt (<) (ts :: real list)" and "i < j" and "j < length ts"
  shows "ts ! i < ts ! j"
  using assms by (simp add: sorted_wrt_iff_nth_less)

lemma py_index_nat: "i < length xs \<Longrightarrow> py_index xs (int i) = Inr (xs ! i)"
  by (simp add: py_index_def)

lemma py_index_succ: "Suc i < length xs \<Longrightarrow> py_index xs (int i + 1) = Inr (xs ! Suc i)"
  using py_index_nat [of "Suc i" xs] by (simp add: add.commute)


lemma interp_fin:
  "t1 \<noteq> t0 \<Longrightarrow> interp a0 a1 t0 t1 t = Fin (a0 + (a1 - a0) * (t - t0) / (t1 - t0))"
  by (simp add: interp_def np_divide_def)

lemma position_cmd_of_fin:
  "t1 \<noteq> t0 \<Longrightarrow> position_cmd_of p0 p1 t0 t1 t = fin3 (interpolate_spec p0 p1 t0 t1 t)"
  by (cases p0; cases p1) (simp add: position_cmd_of_def interpolate_spec_def fin3_def interp_fin)

lemma velocity_cmd_of_fin:
  "t1 \<noteq> t0 \<Longrightarrow> velocity_cmd_of p0 p1 t0 t1 = fin3 (forward_difference_spec p0 p1 t0 t1)"
  by (cases p0; cases p1)
    (simp add: velocity_cmd_of_def forward_difference_spec_def fin3_def np_divide_def)

lemma interpolate_spec_start: "interpolate_spec p0 p1 t0 t1 t0 = p0"
  by (cases p0; cases p1) (simp add: interpolate_spec_def)

lemma position_cmd_of_hold: "position_cmd_of p p 0 1 t = fin3 p"
  by (cases p) (simp add: position_cmd_of_def fin3_def interp_def np_divide_def)

lemma velocity_cmd_of_hold: "velocity_cmd_of p p 0 1 = fin3 (0, 0, 0)"
  by (cases p) (simp add: velocity_cmd_of_def fin3_def np_divide_def)

text \<open>The three places where the nearest timestamp can fall.\<close>

lemma argmin_at_waypoint:
  assumes "sorted_wrt (<) ts" and "i < length ts"
  shows "argmin (map (\<lambda>t. \<bar>t - ts ! i\<bar>) ts) = Inr i"
proof (rule argmin_unique)
  show "i < length (map (\<lambda>t. \<bar>t - ts ! i\<bar>) ts)"
    using assms(2) by simp
next
  fix j
  assume j: "j < length (map (\<lambda>t. \<bar>t - ts ! i\<bar>) ts)" and ne: "j \<noteq> i"
  then have "ts ! j \<noteq> ts ! i"
    using strictly_increasing_nth [OF assms(1), of i j] strictly_increasing_nth [OF assms(1), of j i]
      assms(2) by (cases "i < j") auto
  then show "map (\<lambda>t. \<bar>t - ts ! i\<bar>) ts ! i < map (\<lambda>t. \<bar>t - ts ! i\<bar>) ts ! j"
    using j assms(2) by simp
qed



text \<open>
  C4 (as amended). For strictly increasing timestamps and lists of equal length, a sample
  taken exactly at the timestamp of waypoint \<open>i\<close> returns that waypoint's position and
  yaw. When a next waypoint exists the velocity is the forward difference to it, as the
  specification expects; at the last waypoint there is no next one and the velocity is
  \<open>(0, 0, 0)\<close>.
\<close>

theorem trajectory_at_waypoint:
  assumes "sorted_wrt (<) time_trajectory"
    and "length position_trajectory = length time_trajectory"
    and "length yaw_trajectory = length time_trajectory"
    and "i < length time_trajectory"
  shows "(Suc i < length time_trajectory \<longrightarrow>
            trajectory_control position_trajectory yaw_trajectory time_trajectory
                (time_trajectory ! i)
              = Inr (fin3 (position_trajectory ! i),
                     fin3 (forward_difference_spec (position_trajectory ! i)
                             (position_trajectory ! Suc i)
                             (time_trajectory ! i) (time_trajectory ! Suc i)),
                     yaw_trajectory ! i)
            \<and> trajectory_control position_trajectory yaw_trajectory time_trajectory
                (time_trajectory ! i)
              = waypoint_sample_spec position_trajectory yaw_trajectory time_trajectory i)
         \<and> (Suc i = length time_trajectory \<longrightarrow>
            trajectory_control position_trajectory yaw_trajectory time_trajectory
                (time_trajectory ! i)
              = Inr (fin3 (position_trajectory ! i), fin3 (0, 0, 0), yaw_trajectory ! i))"
proof -
  let ?ps = position_trajectory and ?ys = yaw_trajectory and ?ts = time_trajectory
  have am: "argmin (map (\<lambda>t. \<bar>t - ?ts ! i\<bar>) ?ts) = Inr i"
    using assms(1,4) by (rule argmin_at_waypoint)
  have ix: "py_index ?ts (int i) = Inr (?ts ! i)" "py_index ?ps (int i) = Inr (?ps ! i)"
    "py_index ?ys (int i) = Inr (?ys ! i)"
    using assms by (simp_all add: py_index_nat)
  have last_case: "trajectory_control ?ps ?ys ?ts (?ts ! i)
      = Inr (fin3 (?ps ! i), fin3 (0, 0, 0), ?ys ! i)" if "Suc i = length ?ts"
    using that assms(2)
    by (simp add: trajectory_control_def am ix position_cmd_of_hold velocity_cmd_of_hold)
  have inner_case: "trajectory_control ?ps ?ys ?ts (?ts ! i)
      = Inr (fin3 (?ps ! i),
             fin3 (forward_difference_spec (?ps ! i) (?ps ! Suc i) (?ts ! i) (?ts ! Suc i)),
             ?ys ! i)
      \<and> trajectory_control ?ps ?ys ?ts (?ts ! i) = waypoint_sample_spec ?ps ?ys ?ts i"
    if nxt: "Suc i < length ?ts"
  proof -
    have sx: "py_index ?ts (int i + 1) = Inr (?ts ! Suc i)"
      "py_index ?ps (int i + 1) = Inr (?ps ! Suc i)"
      using nxt assms(2) by (simp_all add: py_index_succ)
    have "?ts ! i < ?ts ! Suc i"
      using assms(1) nxt by (intro strictly_increasing_nth) auto
    then have ne: "?ts ! Suc i \<noteq> ?ts ! i"
      by simp
    have guard: "\<not> int (length ?ps) - 1 \<le> int i"
      using nxt assms(2) by simp
    have "trajectory_control ?ps ?ys ?ts (?ts ! i)
      = Inr (position_cmd_of (?ps ! i) (?ps ! Suc i) (?ts ! i) (?ts ! Suc i) (?ts ! i),
             velocity_cmd_of (?ps ! i) (?ps ! Suc i) (?ts ! i) (?ts ! Suc i), ?ys ! i)"
      using guard by (simp add: trajectory_control_def am ix sx)
    then have "trajectory_control ?ps ?ys ?ts (?ts ! i)
      = Inr (fin3 (?ps ! i),
             fin3 (forward_difference_spec (?ps ! i) (?ps ! Suc i) (?ts ! i) (?ts ! Suc i)),
             ?ys ! i)"
      using ne by (simp add: position_cmd_of_fin velocity_cmd_of_fin interpolate_spec_start)
    then show ?thesis
      by (simp add: waypoint_sample_spec_def ix sx)
  qed
  show ?thesis
    using last_case inner_case by blast
qed

text \<open>An inner waypoint and the last waypoint of a three-point trajectory.\<close>

theorem trajectory_at_waypoint_witness:
  "sorted_wrt (<) [0, 1, 3 :: real]
   \<and> trajectory_control [(0, 0, 0), (1, 2, 3), (5, 2, 3)] [0, 1 / 2, 1] [0, 1, 3] 1
       = Inr (fin3 (1, 2, 3), fin3 (2, 0, 0), 1 / 2)
   \<and> trajectory_control [(0, 0, 0), (1, 2, 3), (5, 2, 3)] [0, 1 / 2, 1] [0, 1, 3] 3
       = Inr (fin3 (5, 2, 3), fin3 (0, 0, 0), 1)"
  using trajectory_at_waypoint [where time_trajectory = "[0, 1, 3]"
          and position_trajectory = "[(0, 0, 0), (1, 2, 3), (5, 2, 3)]"
          and yaw_trajectory = "[0, 1 / 2, 1]" and i = 1]
        trajectory_at_waypoint [where time_trajectory = "[0, 1, 3]"
          and position_trajectory = "[(0, 0, 0), (1, 2, 3), (5, 2, 3)]"
          and yaw_trajectory = "[0, 1 / 2, 1]" and i = 2]
  by (simp add: forward_difference_spec_def)

text \<open>
  C4 as stated fails at the last waypoint: the forward difference needs
  \<open>position_trajectory[i + 1]\<close>, which does not exist there, and the code returns the
  zero velocity of its hold branch.
\<close>

theorem trajectory_last_waypoint_counterexample:
  "sorted_wrt (<) [0, 1 :: real]
   \<and> trajectory_control [(0, 0, 0), (1, 0, 0)] [0, 0] [0, 1] ([0, 1] ! 1)
       = Inr (fin3 (1, 0, 0), fin3 (0, 0, 0), 0)
   \<and> waypoint_sample_spec [(0, 0, 0), (1, 0, 0)] [0, 0] [0, 1] 1 = Inl IndexError
   \<and> trajectory_control [(0, 0, 0), (1, 0, 0)] [0, 0] [0, 1] ([0, 1] ! 1)
       \<noteq> waypoint_sample_spec [(0, 0, 0), (1, 0, 0)] [0, 0] [0, 1] 1"
  by (simp add: trajectory_control_def waypoint_sample_spec_def argmin_def py_index_def
        position_cmd_of_def velocity_cmd_of_def interp_def np_divide_def fin3_def)





end
